(* ===== verification/Prelude.thy ===== *)
theory Prelude
  imports Main "HOL-Library.Sublist"
begin

text \<open>
  Shared vocabulary of the development: the types that name the state of the
  Streamlit script (transcript entries are Python \<open>(role, text)\<close> tuples of
  strings), the Python string operations the script relies on (truthiness of a
  \<open>str\<close>, \<open>str.lower\<close>, the newline and the four-space indentation that the
  triple-quoted f-strings carry), prefix and suffix stripping used to decode a
  prompt, and the lemma collections the component theories share.
\<close>

named_theorems prompt_text "literal pieces of the prompt templates"
named_theorems run_defs "definitions unfolded when one script run is evaluated"

text \<open>
  The exceptions a script run can raise: the remote service's errors
  (\<open>google.api_core\<close> exceptions for an unreachable service, a rejected key, an
  aborted stream), the \<open>ValueError\<close> of \<open>chunk.text\<close> on a response chunk that
  carries no text part, and a \<open>KeyError\<close> on \<open>st.session_state\<close>.
\<close>

datatype app_error = UpstreamError string | ChunkTextError | KeyError string

type_synonym entry = "string \<times> string"
type_synonym transcript = "entry list"

subsection \<open>Python strings\<close>

text \<open>Truthiness of a Python \<open>str\<close>: \<open>if s:\<close> takes the branch iff \<open>s\<close> is non-empty.\<close>

definition py_truthy :: "string \<Rightarrow> bool" where
  "py_truthy s \<longleftrightarrow> s \<noteq> []"

text \<open>
  \<open>str.lower\<close> on the ASCII range (the language names offered by the select
  box are ASCII; case mappings outside ASCII are not modelled).
\<close>

definition py_lower_char :: "char \<Rightarrow> char" where
  "py_lower_char c =
     (let n = (of_char c :: nat) in if 65 \<le> n \<and> n \<le> 90 then char_of (n + 32) else c)"

definition py_lower :: "string \<Rightarrow> string" where
  "py_lower s = map py_lower_char s"

definition py_nl :: string where
  "py_nl = ''\<newline>''"

text \<open>The four spaces that open every line of the indented triple-quoted f-strings.\<close>

definition py_indent :: string where
  "py_indent = ''    ''"

definition py_line :: "string \<Rightarrow> string" where
  "py_line s = py_nl @ py_indent @ s"

subsection \<open>Stripping a known prefix or suffix\<close>

fun strip_prefix :: "'a list \<Rightarrow> 'a list \<Rightarrow> 'a list option" where
  "strip_prefix [] ys = Some ys"
| "strip_prefix (x # xs) [] = None"
| "strip_prefix (x # xs) (y # ys) = (if x = y then strip_prefix xs ys else None)"

definition strip_suffix :: "'a list \<Rightarrow> 'a list \<Rightarrow> 'a list option" where
  "strip_suffix p ys = map_option rev (strip_prefix (rev p) (rev ys))"

subsection \<open>Generic lemmas\<close>

lemma py_truthy_iff [simp]: "py_truthy s \<longleftrightarrow> s \<noteq> []"
  by (simp add: py_truthy_def)

lemma length_py_lower [simp]: "length (py_lower s) = length s"
  by (simp add: py_lower_def)

lemma py_lower_append [simp]: "py_lower (xs @ ys) = py_lower xs @ py_lower ys"
  by (simp add: py_lower_def)

lemma py_lower_char_not_upper:
  "\<not> (65 \<le> (of_char (py_lower_char c) :: nat) \<and> (of_char (py_lower_char c) :: nat) \<le> 90)"
proof -
  show ?thesis
  proof (cases "65 \<le> (of_char c :: nat) \<and> (of_char c :: nat) \<le> 90")
    case True
    then have "(of_char (char_of ((of_char c :: nat) + 32)) :: nat) = of_char c + 32"
      by simp
    with True show ?thesis by (simp add: py_lower_char_def Let_def)
  next
    case False
    then show ?thesis by (simp add: py_lower_char_def Let_def)
  qed
qed

lemma py_lower_char_idem [simp]: "py_lower_char (py_lower_char c) = py_lower_char c"
proof -
  let ?d = "py_lower_char c"
  have "\<not> (65 \<le> (of_char ?d :: nat) \<and> (of_char ?d :: nat) \<le> 90)"
    by (rule py_lower_char_not_upper)
  then show ?thesis
    unfolding py_lower_char_def [of ?d] Let_def by (rule if_not_P)
qed

lemma py_lower_idem [simp]: "py_lower (py_lower s) = py_lower s"
  by (simp add: py_lower_def)

lemma strip_prefix_append [simp]: "strip_prefix xs (xs @ ys) = Some ys"
  by (induction xs) auto

lemma strip_prefix_Some:
  "strip_prefix xs ys = Some zs \<Longrightarrow> ys = xs @ zs"
  by (induction xs ys rule: strip_prefix.induct) (auto split: if_splits)

lemma strip_suffix_append [simp]: "strip_suffix ys (xs @ ys) = Some xs"
  by (simp add: strip_suffix_def)

lemma strip_suffix_Some:
  "strip_suffix ys zs = Some xs \<Longrightarrow> zs = xs @ ys"
proof -
  assume "strip_suffix ys zs = Some xs"
  then obtain r where r: "strip_prefix (rev ys) (rev zs) = Some r" and xs: "xs = rev r"
    by (auto simp: strip_suffix_def)
  from r have "rev zs = rev ys @ r" by (rule strip_prefix_Some)
  then have "zs = rev r @ ys" by (metis rev_append rev_rev_ident)
  with xs show ?thesis by simp
qed

lemma sublist_middle [intro]: "sublist ys (xs @ ys @ zs)"
  by (rule sublist_appendI)

end
