(* ===== verification/Prompt.thy ===== *)
theory Prompt
  imports Prelude
begin

text \<open>
  The prompt builder of \<open>src/app.py\<close>: the two triple-quoted f-strings of
  \<open>generate_required_code\<close> (lines 22--33) and \<open>enhance_code\<close> (lines
  43--55), character for character (each line of the template opens with a
  newline and four spaces, and the closing quotes leave a trailing newline and
  four spaces), and the options of the language select box (line 129).
  Each template is its literal head, the first interpolated argument, a
  literal middle, the second argument and a literal tail. The lemmas show that
  both arguments occur verbatim, that the payload can be decoded back from the
  prompt (a round trip), that prompts of distinct inputs are distinct for the
  languages the select box offers, and that the two tasks never produce the
  same prompt.
\<close>

definition language_options :: "string list" where
  "language_options = [''Python'', ''Java'', ''C++'', ''JavaScript'', ''Go'']"

subsection \<open>generate_required_code: the template\<close>

definition gen_head :: string where
  "gen_head = py_line ''Based on the following user requirements, generate efficient and optimized ''"

definition gen_mid :: string where
  "gen_mid = '' code:'' @ py_line '''' @ py_line ''Requirements: ''"

definition gen_tail :: string where
  "gen_tail =
     py_line '''' @ py_line ''The generated code should:''
     @ py_line ''- Be optimized for performance and scalability.''
     @ py_line ''- Follow best practices and coding standards.''
     @ py_line ''- Ensure that the code is error-free and maintainable.''
     @ py_line '''' @ py_line ''Additionally, provide a brief description of the code functionality.''
     @ py_line ''''"

definition generate_prompt :: "string \<Rightarrow> string \<Rightarrow> string" where
  "generate_prompt requirements language = gen_head @ language @ gen_mid @ requirements @ gen_tail"

subsection \<open>enhance_code: the template\<close>

definition enh_head :: string where
  "enh_head = py_line ''Optimize the following ''"

definition enh_mid :: string where
  "enh_mid = '' code for performance, readability, and error-free execution:''
     @ py_line '''' @ py_line ''Code: ''"

definition enh_tail :: string where
  "enh_tail =
     py_line '''' @ py_line ''The enhanced code should:''
     @ py_line ''- Be optimized for performance.''
     @ py_line ''- Be free from potential errors or bugs.''
     @ py_line ''- Follow best practices and coding standards.''
     @ py_line ''- Be more readable and maintainable.''
     @ py_line '''' @ py_line ''Provide a brief explanation of the improvements made to the code.''
     @ py_line ''''"

definition enhance_prompt :: "string \<Rightarrow> string \<Rightarrow> string" where
  "enhance_prompt snippet language = enh_head @ language @ enh_mid @ snippet @ enh_tail"

declare gen_head_def [prompt_text] gen_mid_def [prompt_text] gen_tail_def [prompt_text]
  enh_head_def [prompt_text] enh_mid_def [prompt_text] enh_tail_def [prompt_text]
  py_line_def [prompt_text] py_nl_def [prompt_text] py_indent_def [prompt_text]

subsection \<open>Decoding a prompt\<close>

text \<open>
  Recovering the payload from a prompt for a known language: strip the literal
  head, the language and the middle, then the literal tail.
\<close>

definition decode_generate_prompt :: "string \<Rightarrow> string \<Rightarrow> string option" where
  "decode_generate_prompt language p =
     Option.bind (strip_prefix (gen_head @ language @ gen_mid) p) (strip_suffix gen_tail)"

definition decode_enhance_prompt :: "string \<Rightarrow> string \<Rightarrow> string option" where
  "decode_enhance_prompt language p =
     Option.bind (strip_prefix (enh_head @ language @ enh_mid) p) (strip_suffix enh_tail)"

subsection \<open>Lemmas\<close>

lemma generate_prompt_split:
  "generate_prompt r l = (gen_head @ l @ gen_mid) @ r @ gen_tail"
  by (simp add: generate_prompt_def)

lemma enhance_prompt_split:
  "enhance_prompt s l = (enh_head @ l @ enh_mid) @ s @ enh_tail"
  by (simp add: enhance_prompt_def)

lemma decode_of_split:
  assumes "Option.bind (strip_prefix h p) (strip_suffix t) = Some r"
  shows "p = h @ r @ t"
proof -
  from assms obtain q where q: "strip_prefix h p = Some q" and r: "strip_suffix t q = Some r"
    by (cases "strip_prefix h p") auto
  from q have "p = h @ q" by (rule strip_prefix_Some)
  moreover from r have "q = r @ t" by (rule strip_suffix_Some)
  ultimately show ?thesis by simp
qed

subsection \<open>Properties\<close>

text \<open>
  C10. The prompt of \<open>generate_required_code\<close> contains the user's
  requirements and the selected language verbatim.
\<close>

theorem generate_prompt_contains:
  "sublist requirements (generate_prompt requirements language)
   \<and> sublist language (generate_prompt requirements language)"
proof
  show "sublist requirements (generate_prompt requirements language)"
    unfolding generate_prompt_split by blast
  show "sublist language (generate_prompt requirements language)"
    unfolding generate_prompt_def by (metis sublist_middle)
qed

text \<open>
  C11. The prompt of \<open>enhance_code\<close> contains the user's snippet and the
  selected language verbatim.
\<close>

theorem enhance_prompt_contains:
  "sublist snippet (enhance_prompt snippet language)
   \<and> sublist language (enhance_prompt snippet language)"
proof
  show "sublist snippet (enhance_prompt snippet language)"
    unfolding enhance_prompt_split by blast
  show "sublist language (enhance_prompt snippet language)"
    unfolding enhance_prompt_def by (metis sublist_middle)
qed

text \<open>
  C12. Round trip for the generation prompt: for a known language, decoding a
  string yields \<open>r\<close> exactly when the string is the prompt built from \<open>r\<close>;
  the f-string neither truncates nor escapes the requirements.
\<close>

theorem decode_generate_prompt_iff:
  "decode_generate_prompt language p = Some r \<longleftrightarrow> p = generate_prompt r language"
proof
  assume "decode_generate_prompt language p = Some r"
  then show "p = generate_prompt r language"
    unfolding decode_generate_prompt_def generate_prompt_split by (rule decode_of_split)
next
  assume "p = generate_prompt r language"
  then show "decode_generate_prompt language p = Some r"
    by (simp add: decode_generate_prompt_def generate_prompt_split del: append_assoc)
qed

text \<open>C13. The same round trip for the enhancement prompt and the snippet.\<close>

theorem decode_enhance_prompt_iff:
  "decode_enhance_prompt language p = Some s \<longleftrightarrow> p = enhance_prompt s language"
proof
  assume "decode_enhance_prompt language p = Some s"
  then show "p = enhance_prompt s language"
    unfolding decode_enhance_prompt_def enhance_prompt_split by (rule decode_of_split)
next
  assume "p = enhance_prompt s language"
  then show "decode_enhance_prompt language p = Some s"
    by (simp add: decode_enhance_prompt_def enhance_prompt_split del: append_assoc)
qed

text \<open>
  C14. For the languages the select box offers, distinct (requirements,
  language) pairs give distinct generation prompts: the language name cannot
  run into the template text (``Java'' against ``JavaScript'' included).
\<close>

theorem generate_prompt_inj:
  assumes "l1 \<in> set language_options" and "l2 \<in> set language_options"
    and "generate_prompt r1 l1 = generate_prompt r2 l2"
  shows "l1 = l2 \<and> r1 = r2"
  using assms by (auto simp: language_options_def generate_prompt_def prompt_text)

theorem generate_prompt_inj_witness:
  "''Java'' \<in> set language_options \<and> ''Java'' \<in> set language_options
   \<and> generate_prompt ''sum a list'' ''Java'' = generate_prompt ''sum a list'' ''Java''
   \<and> ''Java'' = ''Java'' \<and> ''sum a list'' = ''sum a list''"
proof -
  have h: "''Java'' \<in> set language_options" by (simp add: language_options_def)
  show ?thesis using h generate_prompt_inj [OF h h refl] by simp
qed

text \<open>
  C15. A generation prompt and an enhancement prompt are never equal, whatever
  the inputs: the remote model can always tell the two tasks apart.
\<close>

theorem prompts_task_distinct:
  "generate_prompt r l \<noteq> enhance_prompt s l'"
  by (simp add: generate_prompt_def enhance_prompt_def prompt_text)

end
