(* ===== verification/Stream.thy ===== *)
theory Stream
  imports Prelude
begin

text \<open>
  The stream accumulator: the loop
  \<^verbatim>\<open>generated_code = ""; for chunk in response: generated_code += chunk.text\<close>
  of \<open>generate_required_code\<close> (\<open>src/app.py\<close> lines 36--39) and, identically,
  of \<open>enhance_code\<close> (lines 58--61). The response iterated over is the
  streaming response of the remote library, which is not part of the
  repository and is modelled from its documented behaviour: a finite sequence
  of chunks that may end normally or with an exception (connection lost,
  stream aborted), where reading \<open>.text\<close> of a chunk with no text part raises
  \<open>ValueError\<close>. The loop is structural recursion over that sequence with the
  accumulated string as argument. The lemmas relate it to a reference
  specification (concatenate the texts in arrival order unless some chunk or
  the stream itself fails) and give its behaviour on plain fragment lists.
\<close>

datatype chunk = TextChunk string | NoTextChunk

datatype response_stream = SEnd | SChunk chunk response_stream | SFail app_error

definition chunk_text :: "chunk \<Rightarrow> app_error + string" where
  "chunk_text c = (case c of TextChunk t \<Rightarrow> Inr t | NoTextChunk \<Rightarrow> Inl ChunkTextError)"

text \<open>The loop of lines 37--38, with \<open>generated_code\<close> as the accumulator.\<close>

fun drain_response :: "string \<Rightarrow> response_stream \<Rightarrow> app_error + string" where
  "drain_response acc SEnd = Inr acc"
| "drain_response acc (SChunk c rest) =
     (case chunk_text c of
        Inl e \<Rightarrow> Inl e
      | Inr t \<Rightarrow> drain_response (acc @ t) rest)"
| "drain_response acc (SFail e) = Inl e"

text \<open>Line 36 starts the accumulator empty.\<close>

definition accumulate :: "response_stream \<Rightarrow> app_error + string" where
  "accumulate s = drain_response '''' s"

subsection \<open>Reference specification\<close>

primrec stream_chunks :: "response_stream \<Rightarrow> chunk list" where
  "stream_chunks SEnd = []"
| "stream_chunks (SChunk c rest) = c # stream_chunks rest"
| "stream_chunks (SFail e) = []"

primrec stream_error :: "response_stream \<Rightarrow> app_error option" where
  "stream_error SEnd = None"
| "stream_error (SChunk c rest) = stream_error rest"
| "stream_error (SFail e) = Some e"

text \<open>The texts of a chunk list, or the error of its first chunk without text.\<close>

primrec chunk_texts :: "chunk list \<Rightarrow> app_error + string list" where
  "chunk_texts [] = Inr []"
| "chunk_texts (c # cs) =
     (case chunk_text c of
        Inl e \<Rightarrow> Inl e
      | Inr t \<Rightarrow> (case chunk_texts cs of Inl e \<Rightarrow> Inl e | Inr ts \<Rightarrow> Inr (t # ts)))"

definition accumulate_spec :: "response_stream \<Rightarrow> app_error + string" where
  "accumulate_spec s =
     (case chunk_texts (stream_chunks s) of
        Inl e \<Rightarrow> Inl e
      | Inr ts \<Rightarrow> (case stream_error s of Some e \<Rightarrow> Inl e | None \<Rightarrow> Inr (concat ts)))"

text \<open>A stream that delivers the given text fragments and then ends.\<close>

primrec stream_of_fragments :: "string list \<Rightarrow> response_stream" where
  "stream_of_fragments [] = SEnd"
| "stream_of_fragments (f # fs) = SChunk (TextChunk f) (stream_of_fragments fs)"

subsection \<open>Lemmas\<close>

lemma chunk_text_simps [simp]:
  "chunk_text (TextChunk t) = Inr t"
  "chunk_text NoTextChunk = Inl ChunkTextError"
  by (simp_all add: chunk_text_def)

lemma drain_response_acc:
  "drain_response acc s = map_sum id (\<lambda>t. acc @ t) (accumulate_spec s)"
proof (induction s arbitrary: acc)
  case SEnd
  then show ?case by (simp add: accumulate_spec_def)
next
  case (SChunk c rest)
  show ?case
  proof (cases c)
    case (TextChunk t)
    then show ?thesis using SChunk.IH [of "acc @ t"]
      by (auto simp: accumulate_spec_def split: sum.splits option.splits)
  next
    case NoTextChunk
    then show ?thesis by (simp add: accumulate_spec_def)
  qed
next
  case (SFail e)
  then show ?case by (simp add: accumulate_spec_def)
qed

lemma drain_response_fragments:
  "drain_response acc (stream_of_fragments fs) = Inr (acc @ concat fs)"
  by (induction fs arbitrary: acc) auto

lemma drain_response_empty: "drain_response [] s = accumulate_spec s"
proof -
  have "map_sum id (\<lambda>t. [] @ t) x = x" for x :: "app_error + string"
    by (cases x) simp_all
  then show ?thesis by (simp add: drain_response_acc)
qed

lemma chunk_texts_isl: "isl (chunk_texts cs) \<longleftrightarrow> NoTextChunk \<in> set cs"
proof (induction cs)
  case Nil
  then show ?case by simp
next
  case (Cons c cs)
  then show ?case by (cases c) (auto split: sum.splits)
qed

subsection \<open>Properties\<close>

text \<open>
  C7. The accumulation loop of \<open>generate_required_code\<close> and \<open>enhance_code\<close>
  computes exactly the reference specification: on every response stream it
  returns the concatenation of the chunk texts in arrival order when no chunk
  lacks text and the stream ends normally, and otherwise the first error met.
\<close>

theorem accumulate_refines_spec: "accumulate s = accumulate_spec s"
  by (simp add: accumulate_def drain_response_empty)

text \<open>
  C8. On a stream that delivers the fragments \<open>fs\<close> and ends, the loop returns
  their concatenation in order; in particular the empty stream gives the empty
  string and \<open>["a", "b", "c"]\<close> gives \<open>"abc"\<close>.
\<close>

theorem accumulate_fragments: "accumulate (stream_of_fragments fs) = Inr (concat fs)"
  by (simp add: accumulate_def drain_response_fragments)

text \<open>
  C9. The loop raises exactly when the stream itself fails or some chunk has no
  text part: there is no partial result.
\<close>

theorem accumulate_fails_iff:
  "isl (accumulate s) \<longleftrightarrow> stream_error s \<noteq> None \<or> NoTextChunk \<in> set (stream_chunks s)"
proof -
  have "isl (accumulate_spec s) \<longleftrightarrow> stream_error s \<noteq> None \<or> NoTextChunk \<in> set (stream_chunks s)"
    using chunk_texts_isl [of "stream_chunks s"]
    by (auto simp: accumulate_spec_def split: sum.splits option.splits)
  then show ?thesis by (simp add: accumulate_def drain_response_empty)
qed

theorem accumulate_fails_iff_witness:
  "isl (accumulate (SChunk (TextChunk ''a'') (SFail (UpstreamError ''reset''))))
   \<and> stream_error (SChunk (TextChunk ''a'') (SFail (UpstreamError ''reset''))) \<noteq> None"
  using accumulate_fails_iff [of "SChunk (TextChunk ''a'') (SFail (UpstreamError ''reset''))"] by simp

end
