(* ===== verification/ChatSession.thy ===== *)
theory ChatSession
  imports Stream
begin

text \<open>
  The model session: \<open>genai.GenerativeModel("gemini-pro").start_chat(history=[])\<close>
  (\<open>src/app.py\<close> lines 17--18) and \<open>chat.send_message(prompt, stream=True)\<close>
  followed by draining the response (lines 35--39 and 57--61). The library is
  not part of the repository; its behaviour is modelled from its contract: a
  chat session keeps the model name and the history of (role, text) turns;
  sending a prompt asks the remote service, which sees the API key, the model,
  the history and the prompt, and answers with a response stream; once the
  stream has been consumed to its end the prompt and the full answer are
  appended to the history. The remote service is a parameter of type
  \<open>remote\<close>: every lemma holds for every behaviour of the service.
\<close>

record chat_session =
  chat_model :: string
  chat_history :: "(string \<times> string) list"

type_synonym remote = "string option \<Rightarrow> string \<Rightarrow> (string \<times> string) list \<Rightarrow> string \<Rightarrow> response_stream"

definition start_chat :: "string \<Rightarrow> chat_session" where
  "start_chat model = \<lparr>chat_model = model, chat_history = []\<rparr>"

definition send_message :: "remote \<Rightarrow> string option \<Rightarrow> chat_session \<Rightarrow> string \<Rightarrow> response_stream" where
  "send_message srv api_key ch prompt = srv api_key (chat_model ch) (chat_history ch) prompt"

definition record_turn :: "chat_session \<Rightarrow> string \<Rightarrow> string \<Rightarrow> chat_session" where
  "record_turn ch prompt answer =
     ch\<lparr>chat_history := chat_history ch @ [(''user'', prompt), (''model'', answer)]\<rparr>"

text \<open>
  One exchange as the script performs it: send, drain the stream from the
  empty string, and on success return the text and the session whose history
  holds the new turn. An exception leaves the session as it was.
\<close>

definition chat_exchange ::
  "remote \<Rightarrow> string option \<Rightarrow> chat_session \<Rightarrow> string \<Rightarrow> app_error + (string \<times> chat_session)" where
  "chat_exchange srv api_key ch prompt =
     (case accumulate (send_message srv api_key ch prompt) of
        Inl e \<Rightarrow> Inl e
      | Inr answer \<Rightarrow> Inr (answer, record_turn ch prompt answer))"

subsection \<open>Lemmas\<close>

lemma record_turn_model [simp]: "chat_model (record_turn ch p a) = chat_model ch"
  by (simp add: record_turn_def)

lemma start_chat_simps [simp]:
  "chat_history (start_chat m) = []" "chat_model (start_chat m) = m"
  by (simp_all add: start_chat_def)

end
