(* ===== verification/Transcript.thy ===== *)
theory Transcript
  imports Prelude
begin

text \<open>
  The transcript store: \<open>st.session_state["chat_history"]\<close> of
  \<open>src/app.py\<close>, the only state that survives from one run of the script to the
  next. The key is created with an empty list when absent (lines 125--126);
  each successful request appends \<open>("You", input)\<close> and later
  \<open>("Bot", answer)\<close> (lines 144, 149, 161, 166); the history button prints
  every entry as \<open>f"{role}: {text}"\<close> (lines 171--172). Reading or appending
  through a missing key raises \<open>KeyError\<close>, which is a branch of the model.
  The lemmas show that initialisation makes the key present and leaves an
  existing history alone, that appending then never fails and only extends the
  list, and that the well-formedness of a transcript (alternating You/Bot
  entries, non-empty questions) is kept by appending one exchange.
\<close>

record session_state =
  ss_chat_history :: "transcript option"

definition init_chat_history :: "session_state \<Rightarrow> session_state" where
  "init_chat_history ss =
     (if ss_chat_history ss = None then ss\<lparr>ss_chat_history := Some []\<rparr> else ss)"

text \<open>The history a run sees once lines 125--126 have run.\<close>

definition history_of :: "session_state \<Rightarrow> transcript" where
  "history_of ss = (case ss_chat_history ss of None \<Rightarrow> [] | Some h \<Rightarrow> h)"

definition get_chat_history :: "session_state \<Rightarrow> app_error + transcript" where
  "get_chat_history ss =
     (case ss_chat_history ss of None \<Rightarrow> Inl (KeyError ''chat_history'') | Some h \<Rightarrow> Inr h)"

definition append_chat_history :: "session_state \<Rightarrow> entry \<Rightarrow> app_error + session_state" where
  "append_chat_history ss e =
     (case ss_chat_history ss of
        None \<Rightarrow> Inl (KeyError ''chat_history'')
      | Some h \<Rightarrow> Inr (ss\<lparr>ss_chat_history := Some (h @ [e])\<rparr>))"

definition history_line :: "entry \<Rightarrow> string" where
  "history_line e = (case e of (role, text) \<Rightarrow> role @ '': '' @ text)"

text \<open>
  The shape of a transcript in a session: a sequence of requests, each a
  \<open>("You", q)\<close> with non-empty \<open>q\<close>, followed by its \<open>("Bot", a)\<close> unless the
  run was stopped between the two appends.
\<close>

fun wf_transcript :: "transcript \<Rightarrow> bool" where
  "wf_transcript [] = True"
| "wf_transcript [(r, q)] = (r = ''You'' \<and> q \<noteq> [])"
| "wf_transcript ((r, q) # (r', a) # rest) =
     (r = ''You'' \<and> q \<noteq> [] \<and> (if r' = ''Bot'' then wf_transcript rest else wf_transcript ((r', a) # rest)))"

text \<open>
  What one request may do to the transcript: nothing, or append one exchange
  whose question is non-empty.
\<close>

definition extends_by_exchange :: "transcript \<Rightarrow> transcript \<Rightarrow> bool" where
  "extends_by_exchange h h' \<longleftrightarrow>
     h' = h \<or> (\<exists>q a. q \<noteq> [] \<and> h' = h @ [(''You'', q), (''Bot'', a)])"

text \<open>What a run stopped at one of its \<open>st.*\<close> calls may leave: nothing, or one question.\<close>

definition extends_by_question :: "transcript \<Rightarrow> transcript \<Rightarrow> bool" where
  "extends_by_question h h' \<longleftrightarrow> h' = h \<or> (\<exists>q. q \<noteq> [] \<and> h' = h @ [(''You'', q)])"

subsection \<open>Lemmas\<close>

lemma init_chat_history_Some [simp]:
  "ss_chat_history (init_chat_history ss) = Some (history_of ss)"
  by (simp add: init_chat_history_def history_of_def split: option.splits)

lemma history_of_Some [simp]: "ss_chat_history ss = Some h \<Longrightarrow> history_of ss = h"
  by (simp add: history_of_def)

lemma get_chat_history_Some [simp]:
  "ss_chat_history ss = Some h \<Longrightarrow> get_chat_history ss = Inr h"
  by (simp add: get_chat_history_def)

lemma append_chat_history_Some [simp]:
  "ss_chat_history ss = Some h \<Longrightarrow>
   append_chat_history ss e = Inr (ss\<lparr>ss_chat_history := Some (h @ [e])\<rparr>)"
  by (simp add: append_chat_history_def)

lemma wf_transcript_snoc_question:
  "wf_transcript h \<Longrightarrow> q \<noteq> [] \<Longrightarrow> wf_transcript (h @ [(''You'', q)])"
  by (induction h rule: wf_transcript.induct) auto

lemma wf_transcript_snoc_exchange:
  "wf_transcript h \<Longrightarrow> q \<noteq> [] \<Longrightarrow> wf_transcript (h @ [(''You'', q), (''Bot'', a)])"
  by (induction h rule: wf_transcript.induct) auto

lemma extends_by_exchange_wf:
  "extends_by_exchange h h' \<Longrightarrow> wf_transcript h \<Longrightarrow> wf_transcript h'"
  by (auto simp: extends_by_exchange_def wf_transcript_snoc_exchange)

lemma extends_by_question_wf:
  "extends_by_question h h' \<Longrightarrow> wf_transcript h \<Longrightarrow> wf_transcript h'"
  by (auto simp: extends_by_question_def wf_transcript_snoc_question)

lemma extends_by_exchange_prefix:
  "extends_by_exchange h h' \<Longrightarrow> prefix h h'"
  by (auto simp: extends_by_exchange_def)

lemma extends_by_exchange_refl [simp, intro]: "extends_by_exchange h h"
  by (simp add: extends_by_exchange_def)

end
