(* ===== verification/App.thy ===== *)
theory App
  imports Prompt ChatSession Transcript
begin

text \<open>
  The interaction controller: the top level of \<open>src/app.py\<close>. Streamlit
  executes the whole script from the top on every user interaction, so one
  interaction is one run of the script: the module-level set-up (lines 7--18:
  a fresh \<open>chat = model.start_chat(history=[])\<close> every time), the header
  (line 122), the initialisation of the session key (lines 125--126), the two
  request sections (lines 135--149 and 152--166) and the history section
  (lines 169--172), in that order. Only \<open>st.session_state\<close> carries over to the
  next run. A run is modelled as a function of the widget values of that run
  (\<open>run_input\<close>), the remote service and the API key, and the session state
  left by the previous run; it produces the new session state, the render
  commands in order, the chat object of the run and the requests the remote
  service received. An exception stops the script where it is raised;
  Streamlit then shows it, and the session state keeps what was written
  before the raise.
\<close>

datatype render =
    Header string
  | Subheader string
  | Code string string
  | Write string
  | Exception app_error

text \<open>
  The widget values of one run: the select box (line 129), the radio (line
  132), the two text areas (lines 137, 154) and the button whose click caused
  the run (\<open>st.button\<close> returns \<open>True\<close> only in the run its click triggers).
\<close>

record run_input =
  sel_language :: string
  sel_action :: string
  requirements_input :: string
  snippet_input :: string
  clicked :: "string option"

text \<open>
  The state threaded through one run. \<open>rs_calls\<close> records, for each
  \<open>send_message\<close>, the chat history sent along and the prompt: what the
  remote service observes. \<open>rs_checkpoints\<close> records the session state at
  the \<open>st.*\<close> calls of the run: when the user interacts while a run is in
  progress, Streamlit stops the run at its next \<open>st.*\<close> call (a rerun
  request), and the session state of that moment is what the next run sees.
  Recorded are the header (line 122, before the key is initialised), the
  widgets of lines 129--138 (after it) and the subheader and code block of a
  request (lines 147--148, 164--165), which come after the
  \<open>("You", ...)\<close> append and before the \<open>("Bot", ...)\<close> append. The
  remaining calls (lines 154--155, 169--172) see the state the run ends with.
\<close>

record run_state =
  rs_session :: session_state
  rs_chat :: chat_session
  rs_out :: "render list"
  rs_calls :: "((string \<times> string) list \<times> string) list"
  rs_checkpoints :: "session_state list"

type_synonym step_result = "(app_error \<times> run_state) + run_state"

definition action_options :: "string list" where
  "action_options = [''Software Required Code'', ''Code Enhancing'']"

definition button :: "run_input \<Rightarrow> string \<Rightarrow> bool" where
  "button inp label \<longleftrightarrow> clicked inp = Some label"

subsection \<open>The two request functions (lines 21--39 and 42--61)\<close>

definition generate_required_code ::
  "remote \<Rightarrow> string option \<Rightarrow> chat_session \<Rightarrow> string \<Rightarrow> string \<Rightarrow> app_error + (string \<times> chat_session)" where
  "generate_required_code srv api_key chat requirements language =
     chat_exchange srv api_key chat (generate_prompt requirements language)"

definition enhance_code ::
  "remote \<Rightarrow> string option \<Rightarrow> chat_session \<Rightarrow> string \<Rightarrow> string \<Rightarrow> app_error + (string \<times> chat_session)" where
  "enhance_code srv api_key chat snippet language =
     chat_exchange srv api_key chat (enhance_prompt snippet language)"

subsection \<open>A request section (lines 135--149, and 152--166 with the other names)\<close>

text \<open>
  The two sections differ only in the radio value, the button label, the text
  area, the request function and the subheader; \<open>handle_request\<close> is the
  common body with these as parameters: the request function \<open>worker\<close> and
  the prompt it sends (\<open>prompt_of\<close>, for the record of the call).
\<close>

definition handle_request ::
  "(chat_session \<Rightarrow> string \<Rightarrow> string \<Rightarrow> app_error + (string \<times> chat_session))
   \<Rightarrow> (string \<Rightarrow> string \<Rightarrow> string) \<Rightarrow> string \<Rightarrow> string \<Rightarrow> string \<Rightarrow> string
   \<Rightarrow> run_input \<Rightarrow> run_state \<Rightarrow> step_result" where
  "handle_request worker prompt_of action_label button_label title text inp st =
     (if sel_action inp = action_label then
        (if button inp button_label then
           (if py_truthy text then
              (let language = sel_language inp;
                   st1 = st\<lparr>rs_calls := rs_calls st @
                          [(chat_history (rs_chat st), prompt_of text language)]\<rparr>
               in case worker (rs_chat st) text language of
                    Inl e \<Rightarrow> Inl (e, st1)
                  | Inr (answer, chat') \<Rightarrow>
                      (case append_chat_history (rs_session st1) (''You'', text) of
                         Inl e \<Rightarrow> Inl (e, st1\<lparr>rs_chat := chat'\<rparr>)
                       | Inr ss1 \<Rightarrow>
                           (let st2 = st1\<lparr>rs_chat := chat', rs_session := ss1,
                                  rs_checkpoints := rs_checkpoints st1 @ [ss1, ss1],
                                  rs_out := rs_out st1 @
                                    [Subheader (title @ language @ '' Code:''),
                                     Code answer (py_lower language)]\<rparr>
                            in case append_chat_history ss1 (''Bot'', answer) of
                                 Inl e \<Rightarrow> Inl (e, st2)
                               | Inr ss2 \<Rightarrow> Inr (st2\<lparr>rs_session := ss2\<rparr>))))
            else Inr st)
         else Inr st)
      else Inr st)"

definition generate_section :: "remote \<Rightarrow> string option \<Rightarrow> run_input \<Rightarrow> run_state \<Rightarrow> step_result" where
  "generate_section srv api_key inp =
     handle_request (generate_required_code srv api_key) generate_prompt
       ''Software Required Code'' ''Generate Code'' ''Generated '' (requirements_input inp) inp"

definition enhance_section :: "remote \<Rightarrow> string option \<Rightarrow> run_input \<Rightarrow> run_state \<Rightarrow> step_result" where
  "enhance_section srv api_key inp =
     handle_request (enhance_code srv api_key) enhance_prompt
       ''Code Enhancing'' ''Enhance Code'' ''Enhanced '' (snippet_input inp) inp"

subsection \<open>The history section (lines 169--172)\<close>

definition history_section :: "run_input \<Rightarrow> run_state \<Rightarrow> step_result" where
  "history_section inp st =
     (if button inp ''Show Chat History'' then
        (let st1 = st\<lparr>rs_out := rs_out st @ [Subheader ''Chat History'']\<rparr>
         in case get_chat_history (rs_session st1) of
              Inl e \<Rightarrow> Inl (e, st1)
            | Inr h \<Rightarrow> Inr (st1\<lparr>rs_out := rs_out st1 @ map (Write \<circ> history_line) h\<rparr>))
      else Inr st)"

subsection \<open>One run of the script\<close>

definition then_section :: "step_result \<Rightarrow> (run_state \<Rightarrow> step_result) \<Rightarrow> step_result" where
  "then_section r f = (case r of Inl x \<Rightarrow> Inl x | Inr st \<Rightarrow> f st)"

text \<open>
  Line 18 (the chat), 122 (the header) and 125--126: the state at the first
  request section.
\<close>

definition start_run :: "session_state \<Rightarrow> run_state" where
  "start_run ss =
     \<lparr>rs_session = init_chat_history ss, rs_chat = start_chat ''gemini-pro'',
      rs_out = [Header ''Automated Code Generator and Enhancer''], rs_calls = [],
      rs_checkpoints = [ss, init_chat_history ss]\<rparr>"

definition finish_run :: "step_result \<Rightarrow> run_state" where
  "finish_run r = (case r of Inl (e, st) \<Rightarrow> st\<lparr>rs_out := rs_out st @ [Exception e]\<rparr> | Inr st \<Rightarrow> st)"

definition run_script :: "remote \<Rightarrow> string option \<Rightarrow> run_input \<Rightarrow> session_state \<Rightarrow> run_state" where
  "run_script srv api_key inp ss =
     finish_run
       (then_section
          (then_section (generate_section srv api_key inp (start_run ss))
             (enhance_section srv api_key inp))
          (history_section inp))"

declare generate_section_def [run_defs] enhance_section_def [run_defs]
  generate_required_code_def [run_defs] enhance_code_def [run_defs]
  handle_request_def [run_defs] history_section_def [run_defs] then_section_def [run_defs]
  start_run_def [run_defs] finish_run_def [run_defs] run_script_def [run_defs] button_def [run_defs]

fun is_exception :: "render \<Rightarrow> bool" where
  "is_exception (Exception e) = True"
| "is_exception _ = False"

definition no_exception :: "run_state \<Rightarrow> bool" where
  "no_exception st \<longleftrightarrow> \<not> list_ex is_exception (rs_out st)"

text \<open>The state a section leaves, whether or not it raised.\<close>

definition result_state :: "step_result \<Rightarrow> run_state" where
  "result_state r = (case r of Inl (e, st) \<Rightarrow> st | Inr st \<Rightarrow> st)"

subsection \<open>Lemmas: the branches of a request section\<close>

lemma handle_request_skip:
  "\<not> (sel_action inp = a \<and> clicked inp = Some b \<and> text \<noteq> []) \<Longrightarrow>
   handle_request w p a b t text inp st = Inr st"
  by (auto simp: handle_request_def button_def)

lemma handle_request_fail:
  assumes "sel_action inp = a" "clicked inp = Some b" "text \<noteq> []"
    and "w (rs_chat st) text (sel_language inp) = Inl e"
  shows "handle_request w p a b t text inp st =
     Inl (e, st\<lparr>rs_calls := rs_calls st @ [(chat_history (rs_chat st), p text (sel_language inp))]\<rparr>)"
  using assms by (simp add: handle_request_def button_def Let_def)

lemma handle_request_ok:
  assumes "sel_action inp = a" "clicked inp = Some b" "text \<noteq> []"
    and "w (rs_chat st) text (sel_language inp) = Inr (ans, ch')"
    and "ss_chat_history (rs_session st) = Some h"
  shows "handle_request w p a b t text inp st =
     Inr (st\<lparr>rs_session := (rs_session st)\<lparr>ss_chat_history := Some (h @ [(''You'', text), (''Bot'', ans)])\<rparr>,
             rs_chat := ch',
             rs_out := rs_out st @ [Subheader (t @ sel_language inp @ '' Code:''), Code ans (py_lower (sel_language inp))],
             rs_calls := rs_calls st @ [(chat_history (rs_chat st), p text (sel_language inp))],
             rs_checkpoints := rs_checkpoints st @
               [(rs_session st)\<lparr>ss_chat_history := Some (h @ [(''You'', text)])\<rparr>,
                (rs_session st)\<lparr>ss_chat_history := Some (h @ [(''You'', text)])\<rparr>]\<rparr>)"
  using assms by (simp add: handle_request_def button_def Let_def)

lemmas handle_request_branches = handle_request_skip handle_request_fail handle_request_ok

lemma handle_request_extends:
  assumes "ss_chat_history (rs_session st) = Some h"
  shows "\<exists>h'. ss_chat_history (rs_session (result_state (handle_request w p a b t text inp st))) = Some h'
           \<and> extends_by_exchange h h'"
proof (cases "sel_action inp = a \<and> clicked inp = Some b \<and> text \<noteq> []")
  case True
  then show ?thesis
  proof (cases "w (rs_chat st) text (sel_language inp)")
    case (Inl e)
    with True assms show ?thesis by (simp add: handle_request_fail result_state_def)
  next
    case (Inr r)
    with True assms show ?thesis
      by (cases r) (auto simp: handle_request_ok result_state_def extends_by_exchange_def)
  qed
next
  case False
  with assms show ?thesis by (simp add: handle_request_skip result_state_def)
qed

lemma handle_request_calls:
  "rs_calls (result_state (handle_request w p a b t text inp st)) = rs_calls st \<or>
   rs_calls (result_state (handle_request w p a b t text inp st)) =
     rs_calls st @ [(chat_history (rs_chat st), p text (sel_language inp))]"
  by (auto simp: handle_request_def result_state_def Let_def split: sum.splits)

subsection \<open>Lemmas: one run\<close>

lemma history_section_session [simp]:
  "rs_session (result_state (history_section inp st)) = rs_session st"
  "rs_calls (result_state (history_section inp st)) = rs_calls st"
  "rs_checkpoints (result_state (history_section inp st)) = rs_checkpoints st"
  by (auto simp: history_section_def result_state_def Let_def split: sum.splits)

lemma history_section_skip:
  "clicked inp \<noteq> Some ''Show Chat History'' \<Longrightarrow> history_section inp st = Inr st"
  by (simp add: history_section_def button_def)

lemma history_section_show:
  "clicked inp = Some ''Show Chat History'' \<Longrightarrow> ss_chat_history (rs_session st) = Some h \<Longrightarrow>
   history_section inp st =
     Inr (st\<lparr>rs_out := rs_out st @ [Subheader ''Chat History''] @ map (Write \<circ> history_line) h\<rparr>)"
  by (simp add: history_section_def button_def Let_def)

lemma finish_run_result_state [simp]:
  "rs_session (finish_run r) = rs_session (result_state r)"
  "rs_calls (finish_run r) = rs_calls (result_state r)"
  "rs_checkpoints (finish_run r) = rs_checkpoints (result_state r)"
  by (auto simp: finish_run_def result_state_def split: sum.splits)

lemma result_state_simps [simp]:
  "result_state (Inl (e, st)) = st" "result_state (Inr st) = st"
  by (simp_all add: result_state_def)

lemma then_history_section [simp]:
  "rs_session (result_state (then_section r (history_section inp))) = rs_session (result_state r)"
  "rs_calls (result_state (then_section r (history_section inp))) = rs_calls (result_state r)"
  "rs_checkpoints (result_state (then_section r (history_section inp))) = rs_checkpoints (result_state r)"
  by (cases r, auto simp: then_section_def)+

lemma start_run_simps [simp]:
  "ss_chat_history (rs_session (start_run ss)) = Some (history_of ss)"
  "rs_chat (start_run ss) = start_chat ''gemini-pro''"
  "rs_calls (start_run ss) = []"
  "rs_checkpoints (start_run ss) = [ss, init_chat_history ss]"
  "rs_out (start_run ss) = [Header ''Automated Code Generator and Enhancer'']"
  by (simp_all add: start_run_def)

text \<open>
  At most one request section acts in a run: the radio holds one value, so the
  section not selected passes its state through.
\<close>

lemma run_script_one_section:
  "run_script srv k inp ss =
     finish_run (then_section
       (if sel_action inp = ''Software Required Code''
        then generate_section srv k inp (start_run ss)
        else enhance_section srv k inp (start_run ss))
       (history_section inp))"
proof (cases "sel_action inp = ''Software Required Code''")
  case True
  then have "enhance_section srv k inp st = Inr st" for st
    by (simp add: enhance_section_def handle_request_skip)
  with True show ?thesis
    by (simp add: run_script_def then_section_def split: sum.splits)
next
  case False
  then have "generate_section srv k inp st = Inr st" for st
    by (simp add: generate_section_def handle_request_skip)
  with False show ?thesis
    by (simp add: run_script_def then_section_def)
qed

lemma run_script_extends:
  "\<exists>h'. ss_chat_history (rs_session (run_script srv k inp ss)) = Some h'
        \<and> extends_by_exchange (history_of ss) h'"
proof -
  have "\<exists>h'. ss_chat_history (rs_session (result_state
            (if sel_action inp = ''Software Required Code''
             then generate_section srv k inp (start_run ss)
             else enhance_section srv k inp (start_run ss)))) = Some h'
          \<and> extends_by_exchange (history_of ss) h'"
    by (simp add: generate_section_def enhance_section_def handle_request_extends)
  then show ?thesis by (simp add: run_script_one_section)
qed

subsection \<open>Lemmas: where exceptions come from\<close>

lemma handle_request_no_exception:
  "no_exception st \<Longrightarrow> no_exception (result_state (handle_request w p a b t text inp st))"
  by (auto simp: handle_request_def no_exception_def Let_def split: sum.splits)

lemma history_section_no_exception:
  "no_exception st \<Longrightarrow> no_exception (result_state (history_section inp st))"
  by (auto simp: history_section_def no_exception_def Let_def list_ex_iff split: sum.splits)

lemma handle_request_error:
  assumes "ss_chat_history (rs_session st) = Some h"
    and "handle_request w p a b t text inp st = Inl (e, st')"
  shows "w (rs_chat st) text (sel_language inp) = Inl e"
  using assms by (auto simp: handle_request_def Let_def split: if_splits sum.splits)

lemma history_section_Inr:
  "ss_chat_history (rs_session st) = Some h \<Longrightarrow> \<exists>st'. history_section inp st = Inr st'"
  by (simp add: history_section_def Let_def)

lemma no_exception_start_run [simp]: "no_exception (start_run ss)"
  by (simp add: no_exception_def start_run_def)

lemma request_exception_origin:
  assumes "Exception e \<in> set (rs_out (finish_run (then_section
             (handle_request w p a b t txt inp (start_run ss)) (history_section inp))))"
  shows "w (start_chat ''gemini-pro'') txt (sel_language inp) = Inl e"
proof (cases "handle_request w p a b t txt inp (start_run ss)")
  case (Inl x)
  obtain e' st' where x: "x = (e', st')" by (cases x)
  have "no_exception (result_state (handle_request w p a b t txt inp (start_run ss)))"
    by (rule handle_request_no_exception) simp
  with Inl x have ne: "no_exception st'" by simp
  from Inl x assms have "Exception e \<in> set (rs_out st' @ [Exception e'])"
    by (simp add: then_section_def finish_run_def)
  with ne have "e = e'" by (auto simp: no_exception_def list_ex_iff)
  moreover have "w (rs_chat (start_run ss)) txt (sel_language inp) = Inl e'"
    using handle_request_error [of "start_run ss" "history_of ss"] Inl x by simp
  ultimately show ?thesis by simp
next
  case (Inr st')
  from handle_request_extends [of "start_run ss" "history_of ss" "w" "p" "a" "b" "t" "txt" "inp"] Inr
  obtain h where "ss_chat_history (rs_session st') = Some h" by auto
  then obtain st'' where h: "history_section inp st' = Inr st''"
    using history_section_Inr by blast
  have "no_exception (result_state (handle_request w p a b t txt inp (start_run ss)))"
    by (rule handle_request_no_exception) simp
  with Inr have "no_exception st'" by simp
  then have "no_exception (result_state (history_section inp st'))"
    by (rule history_section_no_exception)
  with h Inr assms show ?thesis
    by (fastforce simp: then_section_def finish_run_def no_exception_def list_ex_iff)
qed

subsection \<open>Lemmas: the interruption points of a run\<close>

lemma handle_request_checkpoints:
  assumes "ss_chat_history (rs_session st) = Some h"
    and "c \<in> set (rs_checkpoints (result_state (handle_request w p a b t txt inp st)))"
  shows "c \<in> set (rs_checkpoints st) \<or> (txt \<noteq> [] \<and> ss_chat_history c = Some (h @ [(''You'', txt)]))"
  using assms by (auto simp: handle_request_def Let_def split: if_splits sum.splits)

lemma run_script_checkpoints:
  assumes "c \<in> set (rs_checkpoints (run_script srv k inp ss))"
  shows "extends_by_question (history_of ss) (history_of c)"
proof -
  let ?r = "if sel_action inp = ''Software Required Code''
            then generate_section srv k inp (start_run ss)
            else enhance_section srv k inp (start_run ss)"
  from assms have c: "c \<in> set (rs_checkpoints (result_state ?r))"
    by (simp add: run_script_one_section)
  have key: "ss_chat_history (rs_session (start_run ss)) = Some (history_of ss)" by simp
  have "c \<in> set (rs_checkpoints (start_run ss)) \<or>
        (\<exists>q. q \<noteq> [] \<and> ss_chat_history c = Some (history_of ss @ [(''You'', q)]))"
  proof (cases "sel_action inp = ''Software Required Code''")
    case True
    with c have "c \<in> set (rs_checkpoints (result_state (handle_request (generate_required_code srv k)
        generate_prompt ''Software Required Code'' ''Generate Code'' ''Generated '' (requirements_input inp)
        inp (start_run ss))))" by (simp add: generate_section_def)
    then show ?thesis using handle_request_checkpoints [OF key] by blast
  next
    case False
    with c have "c \<in> set (rs_checkpoints (result_state (handle_request (enhance_code srv k)
        enhance_prompt ''Code Enhancing'' ''Enhance Code'' ''Enhanced '' (snippet_input inp)
        inp (start_run ss))))" by (simp add: enhance_section_def)
    then show ?thesis using handle_request_checkpoints [OF key] by blast
  qed
  moreover have "history_of (init_chat_history ss) = history_of ss"
    using init_chat_history_Some [of ss] by simp
  ultimately show ?thesis
    by (auto simp: extends_by_question_def)
qed

end
