(* ===== verification/Session.thy ===== *)
theory Session
  imports App
begin

text \<open>
  A user session: the sequence of script runs that one browser tab triggers,
  each started from the \<open>st.session_state\<close> the previous run left (the
  first from an empty one). The widgets constrain the values a run can see:
  the select box offers the languages of line 129 and the radio the two
  actions of line 132. \<open>reachable_session\<close> is the set of session states some
  sequence of runs produces, for any behaviour of the remote service: a run
  either completes (\<open>rerun\<close>) or is stopped by Streamlit at one of its
  \<open>st.*\<close> calls because the user interacted meanwhile (\<open>interrupted\<close>), and
  the next run starts from the session state of that moment. The invariants
  of the transcript are proved over \<open>reachable_session\<close> by rule induction.
\<close>

definition valid_input :: "run_input \<Rightarrow> bool" where
  "valid_input inp \<longleftrightarrow>
     sel_language inp \<in> set language_options \<and> sel_action inp \<in> set action_options"

definition initial_session :: session_state where
  "initial_session = \<lparr>ss_chat_history = None\<rparr>"

inductive reachable_session :: "session_state \<Rightarrow> bool" where
  initial: "reachable_session initial_session"
| rerun: "reachable_session ss \<Longrightarrow> valid_input inp \<Longrightarrow>
    reachable_session (rs_session (run_script srv api_key inp ss))"
| interrupted: "reachable_session ss \<Longrightarrow> valid_input inp \<Longrightarrow>
    c \<in> set (rs_checkpoints (run_script srv api_key inp ss)) \<Longrightarrow> reachable_session c"

inductive_cases reachable_sessionE: "reachable_session ss"

subsection \<open>Lemmas\<close>

lemma history_of_initial [simp]: "history_of initial_session = []"
  by (simp add: initial_session_def history_of_def)

lemma run_script_history_of:
  "\<exists>h'. history_of (rs_session (run_script srv k inp ss)) = h' \<and>
        extends_by_exchange (history_of ss) h'"
  using run_script_extends [of srv k inp ss] by auto

end
