(* ===== verification/Spec2Isabelle.thy ===== *)
theory Spec2Isabelle
  imports Session
begin

text \<open>
  \<^bold>\<open>Auto-code-Generatoe: a verification model of \<open>src/app.py\<close>.\<close>

  \<^emph>\<open>The program.\<close> \<open>src/app.py\<close> is a Streamlit page that sends the user's
  requirements (or a code snippet) with a task template to a remote chat model
  and shows the streamed answer. Streamlit runs the whole script from the top
  on every interaction; only \<open>st.session_state\<close> survives between runs. Its
  parts, leaf first, and the theory that models each:
  \<^item> \<^bold>\<open>Prelude\<close>: the error type (\<open>app_error\<close>: remote errors, the
    \<open>ValueError\<close> of \<open>chunk.text\<close>, \<open>KeyError\<close>), the transcript types, the Python
    string operations the script uses (truthiness, \<open>str.lower\<close> on ASCII, the
    newline and indentation of the triple-quoted f-strings), prefix/suffix
    stripping, and the shared lemma collections \<open>prompt_text\<close> and \<open>run_defs\<close>.
  \<^item> \<^bold>\<open>Prompt\<close> (prompt builder): the f-strings of \<open>generate_required_code\<close>
    (lines 22--33) and \<open>enhance_code\<close> (lines 43--55) character for character as
    \<open>generate_prompt\<close> and \<open>enhance_prompt\<close>, the language options (line 129),
    and decoders for the round trip.
  \<^item> \<^bold>\<open>Stream\<close> (stream accumulator): the loop
    \<open>for chunk in response: generated_code += chunk.text\<close> (lines 36--39,
    58--61) as \<open>drain_response\<close>/\<open>accumulate\<close> over a finite
    \<open>response_stream\<close> that may end in an exception; \<open>accumulate_spec\<close> is the
    reference specification.
  \<^item> \<^bold>\<open>ChatSession\<close> (model session, lines 17--18 and the \<open>send_message\<close> calls
    of lines 35 and 57): the library's chat object as a record with its history;
    the remote service is a parameter \<open>remote\<close> (API key, model, history,
    prompt \<open>\<Rightarrow>\<close> response stream), so every theorem holds for every behaviour
    of the service. The library is not in the repository; its behaviour is
    modelled from its contract.
  \<^item> \<^bold>\<open>Transcript\<close> (transcript store): \<open>st.session_state["chat_history"]\<close>
    with its initialisation (lines 125--126), append (lines 144, 149, 161,
    166), read and display lines (171--172), and the well-formedness
    \<open>wf_transcript\<close> (alternating You/Bot, non-empty questions).
  \<^item> \<^bold>\<open>App\<close> (interaction controller): one run of the script,
    \<open>run_script\<close>, composed as the script is: \<open>start_run\<close> (lines 7--18, 122,
    125--126, a fresh chat every run), \<open>generate_section\<close> (135--149),
    \<open>enhance_section\<close> (152--166), both instances of \<open>handle_request\<close>, and
    \<open>history_section\<close> (169--172), threaded by \<open>then_section\<close>, which stops at
    the first exception as Python does; \<open>finish_run\<close> shows the exception.
    Render commands are values of \<open>render\<close>; \<open>rs_calls\<close> records what the
    remote service received; \<open>rs_checkpoints\<close> records the session state at
    each \<open>st.*\<close> call where Streamlit may stop the run (when the user interacts
    while it runs, Streamlit raises a rerun request at the next \<open>st.*\<close> call).
  \<^item> \<^bold>\<open>Session\<close>: a user session as a sequence of runs:
    \<open>reachable_session\<close>, inductive, with one rule for a completed rerun and
    one for a run stopped at one of its checkpoints.

  \<^emph>\<open>What is proved.\<close> In this theory: a successful request appends exactly
  \<open>("You", input)\<close> then \<open>("Bot", answer)\<close> and renders the answer (C1, C16);
  empty input sends nothing and changes nothing (C2); a remote error leaves the
  transcript unchanged and is shown (C3); every reachable session state, with
  interrupted runs included, holds a transcript of requests, each question
  non-empty and each answer preceded by its question (C4, rule induction); a run
  only extends the transcript (C5); each run makes at most one remote call and
  always with an empty chat history (C6); the history button renders every
  entry in order (C17); every exception a run shows comes from its remote
  request, never from the script's own session-state accesses (C18); a
  successful request can leave its question without its answer when the run is
  stopped between lines 144 and 149 (C19). In Stream: the
  loop equals its reference specification (C7), concatenates fragments in order
  (C8) and fails exactly on a failing stream or text-less chunk (C9). In
  Prompt: both inputs occur verbatim (C10, C11), the payload decodes back (C12,
  C13), prompts are injective over the offered languages (C14), the tasks are
  distinguishable (C15).

  \<^emph>\<open>Bounds and fuel.\<close> None are needed: the response stream is a finite
  datatype and the loop is structural recursion over it; every other
  definition is non-recursive or structural.

  \<^emph>\<open>Not modelled.\<close> Page configuration, the CSS of lines 67--119 and widget
  layout (pure rendering); \<open>load_dotenv\<close>/\<open>os.getenv\<close> and
  \<open>genai.configure\<close> (the key is a parameter, passed to the service); the
  internals of the remote model (a parameter). \<open>str.lower\<close> is modelled on
  ASCII only.

  \<^emph>\<open>Shared lemmas.\<close> App proves each branch of \<open>handle_request\<close> once
  (\<open>handle_request_skip\<close>, \<open>_fail\<close>, \<open>_ok\<close>, \<open>_error\<close>), that a run executes
  one request section (\<open>run_script_one_section\<close>) and that it extends the
  transcript by at most one exchange (\<open>run_script_extends\<close>, via
  \<open>extends_by_exchange\<close> of Transcript); the claims of this theory are short
  compositions of these.

  \<^emph>\<open>Plan.\<close> Not yet modelled: the persistence of the text-area values
  under their widget keys \<open>requirements\<close> and \<open>snippet\<close> (lines 137 and 154);
  the enhancement-side counterparts of C2, C3 and C19 follow the same lemmas.

  \<^emph>\<open>Findings.\<close> Because Streamlit reruns the script on every interaction, the
  module-level \<open>chat = model.start_chat(history=[])\<close> is a fresh chat in every
  run: the remote model never sees earlier exchanges (C6), although the
  specification relies on the session handle being reused for follow-up
  coherence. A request is not atomic: the question is appended (line 144)
  before the \<open>st.subheader\<close>/\<open>st.code\<close> calls (147--148) and the answer after
  them (149), so a rerun request at those calls leaves a question without its
  answer (C19), while the specification says that either the full exchange is
  appended or nothing is. The empty-input check is Python truthiness, so a
  whitespace-only input is sent.
\<close>

definition stub_remote :: remote where
  "stub_remote api_key model history prompt = stream_of_fragments [''def add(a,b):'', '' return a+b'']"

definition example_generate :: run_input where
  "example_generate =
     \<lparr>sel_language = ''Python'', sel_action = ''Software Required Code'',
      requirements_input = ''a function that adds two numbers'', snippet_input = '''',
      clicked = Some ''Generate Code''\<rparr>"

definition example_enhance :: run_input where
  "example_enhance =
     \<lparr>sel_language = ''Go'', sel_action = ''Code Enhancing'',
      requirements_input = '''', snippet_input = ''func f() {}'',
      clicked = Some ''Enhance Code''\<rparr>"

lemma lower_python: "py_lower ''Python'' = ''python''"
  by code_simp

lemma lower_go: "py_lower ''Go'' = ''go''"
  by code_simp

lemma stub_accumulate [simp]: "accumulate (stub_remote k m h p) = Inr ''def add(a,b): return a+b''"
  by (simp add: stub_remote_def accumulate_def drain_response_fragments)

text \<open>
  C1. A run in which "Generate Code" is clicked with non-empty requirements and
  the remote answer streams completely appends \<open>("You", requirements)\<close> then
  \<open>("Bot", answer)\<close> to the transcript, renders the subheader and the answer as
  a code block tagged with the lower-cased language, and sends exactly one
  request: the generation prompt, with an empty chat history.
\<close>

theorem generate_run_appends_exchange:
  assumes "sel_action inp = ''Software Required Code''" and "clicked inp = Some ''Generate Code''"
    and "requirements_input inp \<noteq> []"
    and "accumulate (srv k ''gemini-pro'' [] (generate_prompt (requirements_input inp) (sel_language inp))) = Inr a"
  shows "ss_chat_history (rs_session (run_script srv k inp ss)) =
           Some (history_of ss @ [(''You'', requirements_input inp), (''Bot'', a)])
       \<and> rs_out (run_script srv k inp ss) =
           [Header ''Automated Code Generator and Enhancer'',
            Subheader (''Generated '' @ sel_language inp @ '' Code:''), Code a (py_lower (sel_language inp))]
       \<and> rs_calls (run_script srv k inp ss) =
           [([], generate_prompt (requirements_input inp) (sel_language inp))]"
proof -
  let ?p = "generate_prompt (requirements_input inp) (sel_language inp)"
  let ?ch = "start_chat ''gemini-pro''"
  have w: "generate_required_code srv k (rs_chat (start_run ss)) (requirements_input inp) (sel_language inp)
           = Inr (a, record_turn ?ch ?p a)"
    using assms(4) by (simp add: generate_required_code_def chat_exchange_def send_message_def)
  have "generate_section srv k inp (start_run ss) =
     Inr ((start_run ss)\<lparr>rs_session := (rs_session (start_run ss))\<lparr>ss_chat_history :=
              Some (history_of ss @ [(''You'', requirements_input inp), (''Bot'', a)])\<rparr>,
             rs_chat := record_turn ?ch ?p a,
             rs_out := rs_out (start_run ss) @ [Subheader (''Generated '' @ sel_language inp @ '' Code:''),
                          Code a (py_lower (sel_language inp))],
             rs_calls := rs_calls (start_run ss) @ [(chat_history (rs_chat (start_run ss)), ?p)],
             rs_checkpoints := rs_checkpoints (start_run ss) @
               [(rs_session (start_run ss))\<lparr>ss_chat_history := Some (history_of ss @ [(''You'', requirements_input inp)])\<rparr>,
                (rs_session (start_run ss))\<lparr>ss_chat_history := Some (history_of ss @ [(''You'', requirements_input inp)])\<rparr>]\<rparr>)"
    unfolding generate_section_def
    using assms(1-3) w by (rule handle_request_ok) simp
  with assms(2) show ?thesis
    by (simp add: run_script_one_section assms(1) history_section_skip then_section_def finish_run_def)
qed

theorem generate_run_appends_exchange_witness:
  "ss_chat_history (rs_session (run_script stub_remote None example_generate initial_session)) =
     Some [(''You'', ''a function that adds two numbers''), (''Bot'', ''def add(a,b): return a+b'')]
   \<and> rs_out (run_script stub_remote None example_generate initial_session) =
     [Header ''Automated Code Generator and Enhancer'', Subheader ''Generated Python Code:'',
      Code ''def add(a,b): return a+b'' ''python'']"
  using generate_run_appends_exchange [of example_generate stub_remote None "''def add(a,b): return a+b''"
      initial_session]
  by (simp add: example_generate_def lower_python)

text \<open>
  C2. With the generate action selected and empty requirements, a run sends no
  request and leaves the transcript as it was (whatever button was clicked).
\<close>

theorem empty_input_no_request:
  assumes "sel_action inp = ''Software Required Code''" and "requirements_input inp = []"
  shows "ss_chat_history (rs_session (run_script srv k inp ss)) = Some (history_of ss)
       \<and> rs_calls (run_script srv k inp ss) = []"
  using assms by (simp add: run_script_one_section generate_section_def handle_request_skip then_section_def)

theorem empty_input_no_request_witness:
  "ss_chat_history (rs_session (run_script stub_remote None (example_generate\<lparr>requirements_input := []\<rparr>)
      \<lparr>ss_chat_history = Some [(''You'', ''q''), (''Bot'', ''a'')]\<rparr>)) = Some [(''You'', ''q''), (''Bot'', ''a'')]
   \<and> rs_calls (run_script stub_remote None (example_generate\<lparr>requirements_input := []\<rparr>)
      \<lparr>ss_chat_history = Some [(''You'', ''q''), (''Bot'', ''a'')]\<rparr>) = []"
  using empty_input_no_request [of "example_generate\<lparr>requirements_input := []\<rparr>" stub_remote None
      "\<lparr>ss_chat_history = Some [(''You'', ''q''), (''Bot'', ''a'')]\<rparr>"]
  by (simp add: example_generate_def history_of_def)

text \<open>
  C3. If the remote request fails (the stream raises or a chunk has no text),
  the run stops with the exception shown after the header and the transcript
  is left unchanged: no partial entry is appended.
\<close>

theorem upstream_error_keeps_transcript:
  assumes "sel_action inp = ''Software Required Code''" and "clicked inp = Some ''Generate Code''"
    and "requirements_input inp \<noteq> []"
    and "accumulate (srv k ''gemini-pro'' [] (generate_prompt (requirements_input inp) (sel_language inp))) = Inl e"
  shows "ss_chat_history (rs_session (run_script srv k inp ss)) = Some (history_of ss)
       \<and> rs_out (run_script srv k inp ss) = [Header ''Automated Code Generator and Enhancer'', Exception e]"
proof -
  have w: "generate_required_code srv k (rs_chat (start_run ss)) (requirements_input inp) (sel_language inp) = Inl e"
    using assms(4) by (simp add: generate_required_code_def chat_exchange_def send_message_def)
  have "generate_section srv k inp (start_run ss) =
     Inl (e, (start_run ss)\<lparr>rs_calls := rs_calls (start_run ss) @
        [(chat_history (rs_chat (start_run ss)), generate_prompt (requirements_input inp) (sel_language inp))]\<rparr>)"
    unfolding generate_section_def using assms(1-3) w by (rule handle_request_fail)
  then show ?thesis
    by (simp add: run_script_one_section assms(1) then_section_def finish_run_def)
qed

theorem upstream_error_keeps_transcript_witness:
  "ss_chat_history (rs_session (run_script (\<lambda>k m h p. SFail (UpstreamError ''401'')) None example_generate
      initial_session)) = Some []
   \<and> rs_out (run_script (\<lambda>k m h p. SFail (UpstreamError ''401'')) None example_generate initial_session) =
      [Header ''Automated Code Generator and Enhancer'', Exception (UpstreamError ''401'')]"
  using upstream_error_keeps_transcript [of example_generate "\<lambda>k m h p. SFail (UpstreamError ''401'')" None
      "UpstreamError ''401''" initial_session]
  by (simp add: example_generate_def accumulate_def)

text \<open>
  C4. In every session state reachable by reruns, from any remote behaviour,
  whether each run completes or is stopped by Streamlit at one of its
  \<open>st.*\<close> calls, the transcript is a sequence of requests: each a
  \<open>("You", q)\<close> with non-empty \<open>q\<close>, followed by its \<open>("Bot", a)\<close> unless the
  run that appended it was stopped before line 149 (or 166). No \<open>("Bot", a)\<close>
  entry ever appears without the question before it.
\<close>

theorem reachable_wf_transcript:
  "reachable_session ss \<Longrightarrow> wf_transcript (history_of ss)"
proof (induction rule: reachable_session.induct)
  case initial
  then show ?case by simp
next
  case (rerun ss inp srv api_key)
  then show ?case
    using run_script_history_of [of srv api_key inp ss] by (auto dest: extends_by_exchange_wf)
next
  case (interrupted ss inp c srv api_key)
  then show ?case
    using run_script_checkpoints [of c srv api_key inp ss] by (auto dest: extends_by_question_wf)
qed

theorem reachable_wf_transcript_witness:
  "reachable_session (rs_session (run_script stub_remote None example_generate initial_session))
   \<and> wf_transcript (history_of (rs_session (run_script stub_remote None example_generate initial_session)))"
proof -
  have v: "valid_input example_generate"
    by (simp add: valid_input_def example_generate_def language_options_def action_options_def)
  have r: "reachable_session (rs_session (run_script stub_remote None example_generate initial_session))"
    by (rule reachable_session.rerun [OF reachable_session.initial v])
  show ?thesis using r reachable_wf_transcript [OF r] by simp
qed

text \<open>
  C5. A run never removes or rewrites transcript entries: the history before the
  run is a prefix of the history after it.
\<close>

theorem run_script_append_only:
  "prefix (history_of ss) (history_of (rs_session (run_script srv k inp ss)))"
  using run_script_history_of [of srv k inp ss] by (auto dest: extends_by_exchange_prefix)

text \<open>
  C6. A run sends at most one request to the remote service, and that request
  carries an empty chat history: the chat object is created afresh in every
  run, so no earlier exchange reaches the model.
\<close>

theorem run_script_fresh_chat:
  "rs_calls (run_script srv k inp ss) = [] \<or> (\<exists>p. rs_calls (run_script srv k inp ss) = [([], p)])"
proof (cases "sel_action inp = ''Software Required Code''")
  case True
  then show ?thesis
    using handle_request_calls [of "generate_required_code srv k" generate_prompt "''Software Required Code''"
        "''Generate Code''" "''Generated ''" "requirements_input inp" inp "start_run ss"]
    by (auto simp: run_script_one_section generate_section_def)
next
  case False
  then show ?thesis
    using handle_request_calls [of "enhance_code srv k" enhance_prompt "''Code Enhancing''"
        "''Enhance Code''" "''Enhanced ''" "snippet_input inp" inp "start_run ss"]
    by (auto simp: run_script_one_section enhance_section_def)
qed

text \<open>
  C16. The enhancement section behaves symmetrically: a successful "Enhance
  Code" run appends \<open>("You", snippet)\<close> then \<open>("Bot", answer)\<close>, renders the
  answer, and sends the enhancement prompt with an empty history.
\<close>

theorem enhance_run_appends_exchange:
  assumes "sel_action inp = ''Code Enhancing''" and "clicked inp = Some ''Enhance Code''"
    and "snippet_input inp \<noteq> []"
    and "accumulate (srv k ''gemini-pro'' [] (enhance_prompt (snippet_input inp) (sel_language inp))) = Inr a"
  shows "ss_chat_history (rs_session (run_script srv k inp ss)) =
           Some (history_of ss @ [(''You'', snippet_input inp), (''Bot'', a)])
       \<and> rs_out (run_script srv k inp ss) =
           [Header ''Automated Code Generator and Enhancer'',
            Subheader (''Enhanced '' @ sel_language inp @ '' Code:''), Code a (py_lower (sel_language inp))]
       \<and> rs_calls (run_script srv k inp ss) =
           [([], enhance_prompt (snippet_input inp) (sel_language inp))]"
proof -
  let ?p = "enhance_prompt (snippet_input inp) (sel_language inp)"
  let ?ch = "start_chat ''gemini-pro''"
  have w: "enhance_code srv k (rs_chat (start_run ss)) (snippet_input inp) (sel_language inp)
           = Inr (a, record_turn ?ch ?p a)"
    using assms(4) by (simp add: enhance_code_def chat_exchange_def send_message_def)
  have "enhance_section srv k inp (start_run ss) =
     Inr ((start_run ss)\<lparr>rs_session := (rs_session (start_run ss))\<lparr>ss_chat_history :=
              Some (history_of ss @ [(''You'', snippet_input inp), (''Bot'', a)])\<rparr>,
             rs_chat := record_turn ?ch ?p a,
             rs_out := rs_out (start_run ss) @ [Subheader (''Enhanced '' @ sel_language inp @ '' Code:''),
                          Code a (py_lower (sel_language inp))],
             rs_calls := rs_calls (start_run ss) @ [(chat_history (rs_chat (start_run ss)), ?p)],
             rs_checkpoints := rs_checkpoints (start_run ss) @
               [(rs_session (start_run ss))\<lparr>ss_chat_history := Some (history_of ss @ [(''You'', snippet_input inp)])\<rparr>,
                (rs_session (start_run ss))\<lparr>ss_chat_history := Some (history_of ss @ [(''You'', snippet_input inp)])\<rparr>]\<rparr>)"
    unfolding enhance_section_def
    using assms(1-3) w by (rule handle_request_ok) simp
  moreover have "sel_action inp \<noteq> ''Software Required Code''" using assms(1) by simp
  ultimately show ?thesis using assms(2)
    by (simp add: run_script_one_section history_section_skip then_section_def finish_run_def)
qed

theorem enhance_run_appends_exchange_witness:
  "ss_chat_history (rs_session (run_script stub_remote None example_enhance initial_session)) =
     Some [(''You'', ''func f() {}''), (''Bot'', ''def add(a,b): return a+b'')]
   \<and> rs_out (run_script stub_remote None example_enhance initial_session) =
     [Header ''Automated Code Generator and Enhancer'', Subheader ''Enhanced Go Code:'',
      Code ''def add(a,b): return a+b'' ''go'']"
  using enhance_run_appends_exchange [of example_enhance stub_remote None "''def add(a,b): return a+b''"
      initial_session]
  by (simp add: example_enhance_def lower_go)

text \<open>
  C17. In the run triggered by "Show Chat History" no request is made, the
  session keeps its transcript, and after the header the page shows the
  subheader and one line \<open>role: text\<close> per transcript entry, in order.
\<close>

theorem show_history_renders_transcript:
  assumes "clicked inp = Some ''Show Chat History''"
  shows "rs_out (run_script srv k inp ss) =
           [Header ''Automated Code Generator and Enhancer'', Subheader ''Chat History'']
           @ map (Write \<circ> history_line) (history_of ss)
       \<and> rs_session (run_script srv k inp ss) = init_chat_history ss"
proof -
  have "generate_section srv k inp (start_run ss) = Inr (start_run ss)"
       "enhance_section srv k inp (start_run ss) = Inr (start_run ss)"
    using assms by (simp_all add: generate_section_def enhance_section_def handle_request_skip)
  then show ?thesis
    using assms by (simp add: run_script_one_section then_section_def history_section_show finish_run_def)
qed

theorem show_history_renders_transcript_witness:
  "rs_out (run_script stub_remote None (example_generate\<lparr>clicked := Some ''Show Chat History''\<rparr>)
      \<lparr>ss_chat_history = Some [(''You'', ''q''), (''Bot'', ''a'')]\<rparr>) =
     [Header ''Automated Code Generator and Enhancer'', Subheader ''Chat History'',
      Write ''You: q'', Write ''Bot: a'']"
  using show_history_renders_transcript [of "example_generate\<lparr>clicked := Some ''Show Chat History''\<rparr>"
      stub_remote None "\<lparr>ss_chat_history = Some [(''You'', ''q''), (''Bot'', ''a'')]\<rparr>"]
  by (simp add: history_line_def history_of_def)

text \<open>
  C18. Every exception a run shows was raised by its remote request: the
  script's own accesses to \<open>st.session_state["chat_history"]\<close> never raise
  \<open>KeyError\<close>, because lines 125--126 create the key before any use.
\<close>

theorem exceptions_come_from_remote:
  assumes "Exception e \<in> set (rs_out (run_script srv k inp ss))"
  shows "\<exists>p. accumulate (srv k ''gemini-pro'' [] p) = Inl e"
proof (cases "sel_action inp = ''Software Required Code''")
  case True
  with assms have "generate_required_code srv k (start_chat ''gemini-pro'') (requirements_input inp)
      (sel_language inp) = Inl e"
    unfolding run_script_one_section generate_section_def by (auto intro: request_exception_origin)
  then show ?thesis by (auto simp: generate_required_code_def chat_exchange_def send_message_def split: sum.splits)
next
  case False
  with assms have "enhance_code srv k (start_chat ''gemini-pro'') (snippet_input inp)
      (sel_language inp) = Inl e"
    unfolding run_script_one_section enhance_section_def by (auto intro: request_exception_origin)
  then show ?thesis by (auto simp: enhance_code_def chat_exchange_def send_message_def split: sum.splits)
qed

theorem exceptions_come_from_remote_witness:
  "Exception (UpstreamError ''401'') \<in> set (rs_out (run_script (\<lambda>k m h p. SFail (UpstreamError ''401''))
      None example_generate initial_session))
   \<and> (\<exists>p. accumulate ((\<lambda>k m h p. SFail (UpstreamError ''401'')) None ''gemini-pro'' [] p)
         = Inl (UpstreamError ''401''))"
proof -
  have ex: "Exception (UpstreamError ''401'') \<in> set (rs_out (run_script (\<lambda>k m h p. SFail (UpstreamError ''401''))
      None example_generate initial_session))"
    by (simp add: run_defs example_generate_def chat_exchange_def send_message_def accumulate_def
        initial_session_def Let_def)
  show ?thesis using ex exceptions_come_from_remote [OF ex] by simp
qed


text \<open>
  C19. A request is not atomic with respect to the transcript: a run that
  succeeds in the generate section passes through an \<open>st.*\<close> call (the
  subheader and code block of lines 147--148) after appending
  \<open>("You", requirements)\<close> (line 144) and before appending the answer (line
  149). If the user interacts at that moment, Streamlit stops the run there, and
  the session continues from a transcript that holds the question without its
  answer, although the remote request succeeded.
\<close>

theorem interrupted_request_leaves_question:
  fixes srv :: remote and k :: "string option"
  assumes "reachable_session ss" and "valid_input inp"
    and "sel_action inp = ''Software Required Code''" and "clicked inp = Some ''Generate Code''"
    and "requirements_input inp \<noteq> []"
    and "accumulate (srv k ''gemini-pro'' [] (generate_prompt (requirements_input inp) (sel_language inp))) = Inr a"
  shows "\<exists>ss'. reachable_session ss' \<and>
           ss_chat_history ss' = Some (history_of ss @ [(''You'', requirements_input inp)])"
proof -
  let ?c = "(init_chat_history ss)\<lparr>ss_chat_history := Some (history_of ss @ [(''You'', requirements_input inp)])\<rparr>"
  have w: "generate_required_code srv k (rs_chat (start_run ss)) (requirements_input inp) (sel_language inp)
           = Inr (a, record_turn (start_chat ''gemini-pro'') (generate_prompt (requirements_input inp) (sel_language inp)) a)"
    using assms(6) by (simp add: generate_required_code_def chat_exchange_def send_message_def)
  have key: "ss_chat_history (rs_session (start_run ss)) = Some (history_of ss)" by simp
  from handle_request_ok [where w = "generate_required_code srv k" and p = generate_prompt
      and t = "''Generated ''" and st = "start_run ss", OF assms(3-5) w key]
  have "?c \<in> set (rs_checkpoints (result_state (generate_section srv k inp (start_run ss))))"
    by (simp add: generate_section_def start_run_def)
  then have "?c \<in> set (rs_checkpoints (run_script srv k inp ss))"
    by (simp add: run_script_one_section assms(3))
  with assms(1,2) have "reachable_session ?c"
    by (rule reachable_session.interrupted)
  then show ?thesis by auto
qed

theorem interrupted_request_leaves_question_witness:
  "reachable_session initial_session \<and> valid_input example_generate
   \<and> (\<exists>ss'. reachable_session ss' \<and>
        ss_chat_history ss' = Some [(''You'', ''a function that adds two numbers'')])"
proof -
  have v: "valid_input example_generate"
    by (simp add: valid_input_def example_generate_def language_options_def action_options_def)
  have "\<exists>ss'. reachable_session ss' \<and>
          ss_chat_history ss' = Some (history_of initial_session @ [(''You'', requirements_input example_generate)])"
    by (rule interrupted_request_leaves_question [OF reachable_session.initial v, of stub_remote None])
       (simp_all add: example_generate_def)
  with v reachable_session.initial show ?thesis by (simp add: example_generate_def)
qed

end
